theory Spec2Isabelle
  imports Complex_Main "HOL-Library.Sublist"
begin

section \<open>The FIXR client (client.go)\<close>

text \<open>
  A shallow embedding of \<^verbatim>\<open>client.go\<close>. Everything the file calls but does not define
  is a field of the record \<open>env\<close>: the HTTP transport, the JSON decoder of each response
  type, \<^verbatim>\<open>http.NewRequest\<close>, \<^verbatim>\<open>jsonifyPayload\<close>, \<^verbatim>\<open>genKey\<close>, and the two choices the Go
  language leaves open (the order of the stores of a map literal, the order in which
  \<^verbatim>\<open>range\<close> visits a map). The package variables are fields of it too, since a caller
  may assign them. Mutation of a pointer argument is explicit state passing: a function
  returns the value its pointer argument holds afterwards.
\<close>

subsection \<open>Errors and strings\<close>

text \<open>
  \<^verbatim>\<open>errors.New(m)\<close> has the message \<open>m\<close>; \<^verbatim>\<open>errors.Wrap(e, m)\<close> of pkg/errors has the
  message \<open>m\<close>, a colon, a space, and the message of \<open>e\<close>.
\<close>

datatype error = New string | Wrap error string

fun Error_msg :: "error \<Rightarrow> string" where
  "Error_msg (New m) = m"
| "Error_msg (Wrap e m) = m @ '': '' @ Error_msg e"

text \<open>An error mentions a text when the text is a contiguous part of its message.\<close>

definition mentions :: "error \<Rightarrow> string \<Rightarrow> bool" where
  "mentions e s = sublist s (Error_msg e)"

text \<open>The verb \<^verbatim>\<open>%d\<close> of package fmt: decimal digits, with a minus sign below zero.\<close>

fun digits :: "nat \<Rightarrow> string" where
  "digits n = (if n < 10 then [''0123456789'' ! n]
               else digits (n div 10) @ [''0123456789'' ! (n mod 10)])"

declare digits.simps [simp del]

definition fmt_d :: "int \<Rightarrow> string" where
  "fmt_d i = (if i < 0 then CHR ''-'' # digits (nat (- i)) else digits (nat i))"

definition Errorf_d :: "string \<Rightarrow> int \<Rightarrow> string \<Rightarrow> error" where
  \<comment> \<open>\<^verbatim>\<open>fmt.Errorf\<close> of a format with one \<^verbatim>\<open>%d\<close>: the text before it, the number, the text after it\<close>
  "Errorf_d pre i suf = New (pre @ fmt_d i @ suf)"

subsection \<open>float64\<close>

text \<open>
  The code adds two \<^verbatim>\<open>float64\<close> values and compares the sum with zero, nothing else.
  \<open>Finite x\<close> is the finite double of value \<open>x\<close> (both zeros are \<open>Finite 0\<close>). The sum of
  two finite doubles is kept exact: rounding to nearest keeps the sign of a sum, a sum of
  two doubles that is not zero does not round to zero, and an overflow gives the infinity
  of the same sign, so the comparison with zero is the one of IEEE 754. A comparison with
  NaN is false.
\<close>

datatype float64 = Finite real | PosInf | NegInf | NaN

fun f64_add :: "float64 \<Rightarrow> float64 \<Rightarrow> float64" where
  "f64_add NaN _ = NaN"
| "f64_add _ NaN = NaN"
| "f64_add PosInf NegInf = NaN"
| "f64_add NegInf PosInf = NaN"
| "f64_add PosInf _ = PosInf"
| "f64_add _ PosInf = PosInf"
| "f64_add NegInf _ = NegInf"
| "f64_add _ NegInf = NegInf"
| "f64_add (Finite x) (Finite y) = Finite (x + y)"

fun f64_gt_zero :: "float64 \<Rightarrow> bool" where
  "f64_gt_zero (Finite x) = (0 < x)"
| "f64_gt_zero PosInf = True"
| "f64_gt_zero NegInf = False"
| "f64_gt_zero NaN = False"

subsection \<open>The data model\<close>

text \<open>
  Embedding a struct is record extension: a \<open>Client\<close>, a \<open>PromoCode\<close> and a \<open>Booking\<close>
  extend \<open>apiError\<close> and inherit its field and its two methods. \<open>Event\<close> has an error field
  and methods of its own. Go's \<^verbatim>\<open>int\<close> is \<open>int\<close> here: the code compares and prints
  integers and does no arithmetic on them. The type \<^verbatim>\<open>stripeUser\<close> is declared in another
  file of the package; the code passes it through, and a value of it stands here as the
  text it was decoded from. The field \<^verbatim>\<open>httpClient\<close> is the transport of \<open>env\<close>.
\<close>

type_synonym stripeUser = string

record apiError =
  Error :: string

record Client = apiError +
  Email :: string
  FirstName :: string
  LastName :: string
  MagicURL :: string
  AuthToken :: string
  StripeUser :: "stripeUser option"

record Ticket =
  ID :: int
  Name :: string
  Type :: int
  Currency :: string
  Price :: float64
  BookingFee :: float64
  Max :: int
  SoldOut :: bool
  Expired :: bool
  Invalid :: bool

record Event =
  ID :: int
  Name :: string
  Tickets :: "Ticket list"
  Error :: string

record PromoCode = apiError +
  Code :: string
  Price :: float64
  BookingFee :: float64
  Currency :: string
  Max :: int
  Remaining :: int

record Booking = apiError +
  Event :: Event
  Name :: string
  PDF :: string
  State :: int

text \<open>The zero values that \<^verbatim>\<open>Event{}\<close>, \<^verbatim>\<open>PromoCode{}\<close> and \<^verbatim>\<open>Booking{}\<close> denote.\<close>

definition Event_zero :: Event where
  "Event_zero = \<lparr>Event.ID = 0, Event.Name = [], Tickets = [], Event.Error = []\<rparr>"

definition PromoCode_zero :: PromoCode where
  "PromoCode_zero = \<lparr>apiError.Error = [], Code = [], PromoCode.Price = Finite 0,
     PromoCode.BookingFee = Finite 0, PromoCode.Currency = [], PromoCode.Max = 0, Remaining = 0\<rparr>"

definition Booking_zero :: Booking where
  "Booking_zero = \<lparr>apiError.Error = [], Booking.Event = Event_zero, Booking.Name = [],
     PDF = [], State = 0\<rparr>"

text \<open>\<^verbatim>\<open>type payload map[string]interface{}\<close>, with the two kinds of value the code stores.\<close>

datatype any = AnyInt int | AnyString string

type_synonym payload = "string \<rightharpoonup> any"

text \<open>
  The interface \<^verbatim>\<open>responseParams\<close> is the table of its two methods. \<^verbatim>\<open>clearError\<close> has a
  pointer receiver: it returns the receiver as it is afterwards.
\<close>

record 'o responseParams =
  error :: "'o \<Rightarrow> error option"
  clearError :: "'o \<Rightarrow> 'o"

definition apiError_error :: "'a apiError_scheme \<Rightarrow> error option" where
  "apiError_error a = (if length (apiError.Error a) > 0 then Some (New (apiError.Error a)) else None)"

definition apiError_clearError :: "'a apiError_scheme \<Rightarrow> 'a apiError_scheme" where
  "apiError_clearError a = a\<lparr>apiError.Error := []\<rparr>"

definition Event_error :: "Event \<Rightarrow> error option" where
  "Event_error e = (if length (Event.Error e) > 0 then Some (New (Event.Error e)) else None)"

definition Event_clearError :: "Event \<Rightarrow> Event" where
  "Event_clearError e = e\<lparr>Event.Error := []\<rparr>"

definition apiError_params :: "'a apiError_scheme responseParams" where
  "apiError_params = \<lparr>error = apiError_error, clearError = apiError_clearError\<rparr>"

definition Event_params :: "Event responseParams" where
  "Event_params = \<lparr>error = Event_error, clearError = Event_clearError\<rparr>"

subsection \<open>The outside world\<close>

record request =
  Method :: string
  URL :: string
  Header :: "string \<rightharpoonup> string list"
  Body :: "string option"

text \<open>
  The world records every request handed to the transport, in order, and counts the calls
  of \<^verbatim>\<open>genKey\<close>.
\<close>

record world =
  requests :: "request list"
  keys :: nat

text \<open>
  A decoder is \<^verbatim>\<open>json.NewDecoder(body).Decode(obj)\<close> for one target type: it returns the
  error, if any, and the target as the decoder leaves it (package encoding/json keeps what it
  has stored in the target when it fails).
\<close>

type_synonym 'o decoder = "string \<Rightarrow> 'o \<Rightarrow> error option \<times> 'o"

record env =
  UserAgent :: string
  FixrPlatformVer :: string
  FixrVersion :: string
  NewRequest_URL :: "string \<Rightarrow> string option"
  httpClient_Do :: "request list \<Rightarrow> request \<Rightarrow> error + string"
  jsonifyPayload :: "payload \<Rightarrow> error + string"
  genKey :: "nat \<Rightarrow> string"
  decode_Client :: "Client decoder"
  decode_Event :: "Event decoder"
  decode_PromoCode :: "PromoCode decoder"
  decode_Booking :: "Booking decoder"
  literal_in_source_order :: bool
  range_true_first :: bool

subsection \<open>Request headers\<close>

text \<open>
  \<^verbatim>\<open>Header.Set\<close> stores under the canonical form of the key (package net/textproto): when every
  byte of the key is a token byte, the first letter and each letter after a hyphen are made
  upper case and the other letters lower case; any other key is left as it is. An
  assignment \<^verbatim>\<open>req.Header[k] = v\<close> stores under the key as written.
\<close>

definition toUpper :: "char \<Rightarrow> char" where
  "toUpper c = (case map_of (zip ''abcdefghijklmnopqrstuvwxyz'' ''ABCDEFGHIJKLMNOPQRSTUVWXYZ'') c of
                  Some u \<Rightarrow> u | None \<Rightarrow> c)"

definition toLower :: "char \<Rightarrow> char" where
  "toLower c = (case map_of (zip ''ABCDEFGHIJKLMNOPQRSTUVWXYZ'' ''abcdefghijklmnopqrstuvwxyz'') c of
                  Some l \<Rightarrow> l | None \<Rightarrow> c)"

definition validHeaderFieldByte :: "char \<Rightarrow> bool" where
  "validHeaderFieldByte c =
     (c \<in> set (''abcdefghijklmnopqrstuvwxyz'' @ ''ABCDEFGHIJKLMNOPQRSTUVWXYZ'' @ ''0123456789''
               @ ''!#$%&*+-.^_|~'' @ [char_of (39::nat), char_of (96::nat)]))"

fun canonical :: "bool \<Rightarrow> string \<Rightarrow> string" where
  "canonical upper [] = []"
| "canonical upper (c # cs) =
     (if upper then toUpper c else toLower c)
       # canonical ((if upper then toUpper c else toLower c) = CHR ''-'') cs"

definition CanonicalMIMEHeaderKey :: "string \<Rightarrow> string" where
  "CanonicalMIMEHeaderKey s = (if list_all validHeaderFieldByte s then canonical True s else s)"

definition Header_Set :: "string \<Rightarrow> string \<Rightarrow> request \<Rightarrow> request" where
  "Header_Set k v req = req\<lparr>Header := (Header req)(CanonicalMIMEHeaderKey k \<mapsto> [v])\<rparr>"

definition Header_assign :: "string \<Rightarrow> string list \<Rightarrow> request \<Rightarrow> request" where
  "Header_assign k vs req = req\<lparr>Header := (Header req)(k \<mapsto> vs)\<rparr>"

subsection \<open>Constants\<close>

definition bookingURL :: string where
  "bookingURL = ''https://api.fixr-app.com/api/v2/app/booking''"

definition loginURL :: string where
  "loginURL = ''https://api.fixr-app.com/api/v2/app/user/authenticate/with-email''"

definition cardURL :: string where
  "cardURL = ''https://api.stripe.com/v1/tokens''"

definition eventURL :: "int \<Rightarrow> string" where
  \<comment> \<open>\<^verbatim>\<open>fmt.Sprintf(eventURL, id)\<close>\<close>
  "eventURL i = ''https://api.fixr-app.com/api/v2/app/event/'' @ fmt_d i"

definition promoURL :: "int \<Rightarrow> string \<Rightarrow> string" where
  \<comment> \<open>\<^verbatim>\<open>fmt.Sprintf(promoURL, ticketID, code)\<close>\<close>
  "promoURL i code = ''https://api.fixr-app.com/api/v2/app/promo_code/'' @ fmt_d i @ ''/'' @ code"

subsection \<open>The response envelope and the dispatcher\<close>

text \<open>
  \<^verbatim>\<open>decodeJSONResponse\<close>: a decoding error returns at once. Otherwise \<^verbatim>\<open>clearError\<close> is
  deferred, the embedded error is read and returned, and the deferred call clears the
  target.
\<close>

definition decodeJSONResponse ::
    "'o decoder \<Rightarrow> 'o responseParams \<Rightarrow> string \<Rightarrow> 'o \<Rightarrow> error option \<times> 'o" where
  "decodeJSONResponse dec rp resp_body obj =
     (case dec resp_body obj of
        (Some err, obj') \<Rightarrow> (Some (Wrap err ''JSON decoding failed''), obj')
      | (None, obj') \<Rightarrow> (error rp obj', clearError rp obj'))"

text \<open>
  \<^verbatim>\<open>req\<close>, lines 155 to 167: the headers. The field \<open>URL\<close> holds \<^verbatim>\<open>req.URL.String()\<close>.
  The client is read for its token only.
\<close>

definition Client_req_headers :: "env \<Rightarrow> Client \<Rightarrow> bool \<Rightarrow> request \<Rightarrow> request" where
  "Client_req_headers env c auth req0 =
     (let req1 = Header_Set ''User-Agent'' (UserAgent env) req0;
          req2 = (if auth then Header_Set ''Authorization'' (''Token '' @ AuthToken c) req1 else req1)
      in if URL req2 = cardURL
         then Header_Set ''Content-Type'' ''application/x-www-form-urlencoded'' req2
         else Header_assign ''FIXR-App-Version'' [FixrVersion env]
               (Header_assign ''FIXR-Platform-Version'' [FixrPlatformVer env]
                 (Header_assign ''FIXR-Platform'' [''web'']
                   (Header_Set ''Content-Type'' ''application/json'' req2))))"

text \<open>
  \<^verbatim>\<open>req\<close>, lines 168 to 173: the request goes to the transport, which answers from the
  requests it has seen and this one; the world records the request. Closing the body of
  the response is not modelled.
\<close>

definition Client_req ::
    "env \<Rightarrow> Client \<Rightarrow> request \<Rightarrow> bool \<Rightarrow> 'o responseParams \<Rightarrow> 'o decoder \<Rightarrow> 'o \<Rightarrow> world
       \<Rightarrow> (error option \<times> 'o) \<times> world" where
  "Client_req env c req0 auth rp dec obj w =
     (let req3 = Client_req_headers env c auth req0;
          w' = w\<lparr>requests := requests w @ [req3]\<rparr>
      in case httpClient_Do env (requests w) req3 of
           Inl err \<Rightarrow> ((Some (Wrap err ''error executing request''), obj), w')
         | Inr resp_body \<Rightarrow> (decodeJSONResponse dec rp resp_body obj, w'))"

text \<open>
  \<^verbatim>\<open>http.NewRequest\<close> fails when the address does not parse; \<open>NewRequest_URL\<close> gives the
  parsed address as \<^verbatim>\<open>URL.String()\<close> prints it. A new request has no header.
\<close>

definition Client_get ::
    "env \<Rightarrow> Client \<Rightarrow> string \<Rightarrow> bool \<Rightarrow> 'o responseParams \<Rightarrow> 'o decoder \<Rightarrow> 'o \<Rightarrow> world
       \<Rightarrow> (error option \<times> 'o) \<times> world" where
  "Client_get env c addr auth rp dec obj w =
     (case NewRequest_URL env addr of
        None \<Rightarrow> ((Some (New ''error creating GET request''), obj), w)
      | Some u \<Rightarrow>
          Client_req env c \<lparr>Method = ''GET'', URL = u, Header = Map.empty, Body = None\<rparr>
            auth rp dec obj w)"

definition Client_post ::
    "env \<Rightarrow> Client \<Rightarrow> string \<Rightarrow> string \<Rightarrow> bool \<Rightarrow> 'o responseParams \<Rightarrow> 'o decoder \<Rightarrow> 'o \<Rightarrow> world
       \<Rightarrow> (error option \<times> 'o) \<times> world" where
  "Client_post env c addr data auth rp dec obj w =
     (case NewRequest_URL env addr of
        None \<Rightarrow> ((Some (New ''error creating POST request''), obj), w)
      | Some u \<Rightarrow>
          Client_req env c \<lparr>Method = ''POST'', URL = u, Header = Map.empty, Body = Some data\<rparr>
            auth rp dec obj w)"

subsection \<open>The domain operations\<close>

text \<open>
  \<^verbatim>\<open>Logon\<close> decodes into the client itself: the second component of the result is the client
  afterwards.
\<close>

definition Client_Logon :: "env \<Rightarrow> Client \<Rightarrow> string \<Rightarrow> world \<Rightarrow> (error option \<times> Client) \<times> world" where
  "Client_Logon env c pass w =
     (let pl = [''email'' \<mapsto> AnyString (Email c), ''password'' \<mapsto> AnyString pass]
      in case jsonifyPayload env pl of
           Inl err \<Rightarrow> ((Some err, c), w)
         | Inr data \<Rightarrow>
             (case Client_post env c loginURL data False apiError_params (decode_Client env) c w of
                ((Some err, c'), w') \<Rightarrow> ((Some (Wrap err ''error logging on''), c'), w')
              | ((None, c'), w') \<Rightarrow> ((None, c'), w')))"

definition Client_Event :: "env \<Rightarrow> Client \<Rightarrow> int \<Rightarrow> world \<Rightarrow> (Event option \<times> error option) \<times> world" where
  "Client_Event env c i w =
     (case Client_get env c (eventURL i) False Event_params (decode_Event env) Event_zero w of
        ((Some err, event), w') \<Rightarrow> ((None, Some (Wrap err ''error getting event'')), w')
      | ((None, event), w') \<Rightarrow> ((Some event, None), w'))"

definition Client_Promo ::
    "env \<Rightarrow> Client \<Rightarrow> int \<Rightarrow> string \<Rightarrow> world \<Rightarrow> (PromoCode option \<times> error option) \<times> world" where
  "Client_Promo env c ticketID code w =
     (case Client_get env c (promoURL ticketID code) True apiError_params (decode_PromoCode env)
             PromoCode_zero w of
        ((Some err, promo), w') \<Rightarrow> ((None, Some (Wrap err ''error getting promo code'')), w')
      | ((None, promo), w') \<Rightarrow> ((Some promo, None), w'))"

text \<open>
  The map literal of \<^verbatim>\<open>Book\<close> has keys that are not constants. It is built by one store
  for each element: a later store to the same key replaces the earlier one. The compiler
  stores in source order; the language leaves the order open, and so does
  \<open>literal_in_source_order\<close>. \<^verbatim>\<open>range\<close> visits the keys of the map in an order that the
  language leaves open too.
\<close>

definition map_literal :: "bool \<Rightarrow> ('k \<times> 'v) list \<Rightarrow> ('k \<rightharpoonup> 'v)" where
  "map_literal source_order kvs =
     fold (\<lambda>(k, v) m. m(k \<mapsto> v)) (if source_order then kvs else rev kvs) Map.empty"

definition range_map :: "bool \<Rightarrow> (bool \<rightharpoonup> 'v) \<Rightarrow> (bool \<times> 'v) list" where
  "range_map true_first m =
     List.map_filter (\<lambda>k. map_option (Pair k) (m k))
       (if true_first then [True, False] else [False, True])"

text \<open>The body of the loop (lines 224 to 230): the first entry with a true key returns its message.\<close>

fun Book_range :: "(bool \<times> string) list \<Rightarrow> string option" where
  "Book_range [] = None"
| "Book_range ((t, msg) # rest) = (if t then Some msg else Book_range rest)"

text \<open>The checks of \<^verbatim>\<open>Book\<close> (lines 224 to 233): the error it returns, if any.\<close>

definition Book_validate :: "env \<Rightarrow> Ticket \<Rightarrow> int \<Rightarrow> error option" where
  "Book_validate env ticket amount =
     (case Book_range (range_map (range_true_first env)
             (map_literal (literal_in_source_order env)
                [(SoldOut ticket, ''ticket selection has sold out''),
                 (Expired ticket, ''ticket selection has expired'')])) of
        Some msg \<Rightarrow> Some (New msg)
      | None \<Rightarrow>
          if amount > Ticket.Max ticket
          then Some (Errorf_d ''cannot purchase more than the maximum ('' (Ticket.Max ticket) '')'')
          else None)"

text \<open>
  The payload of \<^verbatim>\<open>Book\<close> (lines 218 to 221 and 234 to 239). \<^verbatim>\<open>genKey\<close> is called only for a
  ticket that costs something.
\<close>

definition Book_payload :: "env \<Rightarrow> Ticket \<Rightarrow> int \<Rightarrow> PromoCode option \<Rightarrow> world \<Rightarrow> payload \<times> world" where
  "Book_payload env ticket amount promo w =
     (let pl = [''ticket_id'' \<mapsto> AnyInt (Ticket.ID ticket), ''amount'' \<mapsto> AnyInt amount];
          (pl, w) = (if f64_gt_zero (f64_add (Ticket.BookingFee ticket) (Ticket.Price ticket))
                     then (pl(''purchase_key'' \<mapsto> AnyString (genKey env (keys w))),
                           w\<lparr>keys := Suc (keys w)\<rparr>)
                     else (pl, w));
          pl = (case promo of Some p \<Rightarrow> pl(''promo_code'' \<mapsto> AnyString (Code p)) | None \<Rightarrow> pl)
      in (pl, w))"

text \<open>
  A call either panics or returns. \<^verbatim>\<open>Book\<close> dereferences its ticket, so a nil ticket
  panics. \<^verbatim>\<open>fmt.Println(ticket)\<close> writes to the standard output, which the world does not
  record. The receiver of a call is a client, never nil.
\<close>

datatype 'a outcome = Panic | Return 'a

definition Client_Book ::
    "env \<Rightarrow> Client \<Rightarrow> Ticket option \<Rightarrow> int \<Rightarrow> PromoCode option \<Rightarrow> world
       \<Rightarrow> (Booking option \<times> error option) outcome \<times> world" where
  "Client_Book env c ticket amount promo w =
     (case ticket of
        None \<Rightarrow> (Panic, w)
      | Some t \<Rightarrow>
          (case Book_validate env t amount of
             Some err \<Rightarrow> (Return (None, Some err), w)
           | None \<Rightarrow>
               (let (pl, w1) = Book_payload env t amount promo w
                in case jsonifyPayload env pl of
                     Inl err \<Rightarrow> (Return (None, Some err), w1)
                   | Inr data \<Rightarrow>
                       (case Client_post env c bookingURL data True apiError_params
                               (decode_Booking env) Booking_zero w1 of
                          ((Some err, booking), w2) \<Rightarrow>
                            (Return (None, Some (Wrap err ''error booking ticket'')), w2)
                        | ((None, booking), w2) \<Rightarrow> (Return (Some booking, None), w2)))))"

subsection \<open>Concrete inputs\<close>

text \<open>
  The inputs at which the theorems below are evaluated. The bodies of responses are
  written without quotation marks. Each decoder knows a few bodies and rejects the rest;
  the body \<open>{message: boom, auth_token: 5}\<close> is a JSON object whose second member has the
  wrong type: the decoder of encoding/json stores the first member, goes on, and reports
  the type error.
\<close>

definition demo_decode_Client :: "Client decoder" where
  "demo_decode_Client b c =
     (if b = ''{first_name: Ann, auth_token: tok}''
      then (None, c\<lparr>FirstName := ''Ann'', AuthToken := ''tok''\<rparr>)
      else if b = ''{message: Bad password, first_name: Eve, last_name: Doe, magic_login_url: m, auth_token: t2}''
      then (None, c\<lparr>apiError.Error := ''Bad password'', FirstName := ''Eve'', LastName := ''Doe'',
                     MagicURL := ''m'', AuthToken := ''t2''\<rparr>)
      else if b = ''{message: boom, auth_token: 5}''
      then (Some (New ''json: cannot unmarshal number into Go struct field Client.auth_token of type string''),
            c\<lparr>apiError.Error := ''boom''\<rparr>)
      else (Some (New ''unexpected end of JSON input''), c))"

definition demo_decode_Event :: "Event decoder" where
  "demo_decode_Event b e =
     (if b = ''{id: 7, name: Ball}'' then (None, e\<lparr>Event.ID := 7, Event.Name := ''Ball''\<rparr>)
      else if b = ''{detail: Not found.}'' then (None, e\<lparr>Event.Error := ''Not found.''\<rparr>)
      else (Some (New ''unexpected end of JSON input''), e))"

definition demo_decode_PromoCode :: "PromoCode decoder" where
  "demo_decode_PromoCode b p =
     (if b = ''{code: SAVE10, max_per_user: 2}'' then (None, p\<lparr>Code := ''SAVE10'', PromoCode.Max := 2\<rparr>)
      else if b = ''{message: Invalid code}'' then (None, p\<lparr>apiError.Error := ''Invalid code''\<rparr>)
      else (Some (New ''unexpected end of JSON input''), p))"

definition demo_decode_Booking :: "Booking decoder" where
  "demo_decode_Booking b k =
     (if b = ''{user_full_name: Ann Lee, state: 1}'' then (None, k\<lparr>Booking.Name := ''Ann Lee'', State := 1\<rparr>)
      else if b = ''{message: Card declined}'' then (None, k\<lparr>apiError.Error := ''Card declined''\<rparr>)
      else (Some (New ''unexpected end of JSON input''), k))"

text \<open>A rendering of a payload that shows which fields it holds.\<close>

definition demo_jsonifyPayload :: "payload \<Rightarrow> error + string" where
  "demo_jsonifyPayload pl =
     Inr (concat (map (\<lambda>k. case pl k of
                              None \<Rightarrow> []
                            | Some (AnyInt i) \<Rightarrow> k @ ''='' @ fmt_d i @ '';''
                            | Some (AnyString s) \<Rightarrow> k @ ''='' @ s @ '';'')
            [''amount'', ''email'', ''password'', ''promo_code'', ''purchase_key'', ''ticket_id'']))"

text \<open>
  A transport that answers by address. A logon is answered by its password: \<open>secret\<close>
  is accepted, \<open>odd\<close> gets the body with the member of the wrong type, and any other
  password is refused in a body that carries an error message beside profile fields.
\<close>

definition demo_httpClient_Do :: "request list \<Rightarrow> request \<Rightarrow> error + string" where
  "demo_httpClient_Do seen req =
     (if URL req = loginURL
      then (if Body req = Some ''email=ann@example.org;password=secret;''
            then Inr ''{first_name: Ann, auth_token: tok}''
            else if Body req = Some ''email=ann@example.org;password=odd;''
            then Inr ''{message: boom, auth_token: 5}''
            else Inr ''{message: Bad password, first_name: Eve, last_name: Doe, magic_login_url: m, auth_token: t2}'')
      else if URL req = bookingURL then Inr ''{user_full_name: Ann Lee, state: 1}''
      else if URL req = eventURL 7 then Inr ''{id: 7, name: Ball}''
      else if URL req = eventURL 8 then Inr ''{detail: Not found.}''
      else if URL req = promoURL 11 ''SAVE10'' then Inr ''{code: SAVE10, max_per_user: 2}''
      else if URL req = promoURL 11 ''NOPE'' then Inr ''{message: Invalid code}''
      else Inl (New ''dial tcp: connection refused''))"

text \<open>
  The package variables have their initial values. Every address parses and prints as
  written, and the compiler stores the elements of a map literal in source order.
\<close>

definition demo_env :: env where
  "demo_env =
     \<lparr>UserAgent = ''Mozilla/5.0 (X11; Linux x86_64) AppleWebKit/537.36 (KHTML, like Gecko) Chrome/51.0.2704.103 Safari/537.36'',
      FixrPlatformVer = ''Chrome/51.0.2704.103'',
      FixrVersion = ''1.34.0'',
      NewRequest_URL = Some,
      httpClient_Do = demo_httpClient_Do,
      jsonifyPayload = demo_jsonifyPayload,
      genKey = (\<lambda>n. ''key'' @ fmt_d (int n)),
      decode_Client = demo_decode_Client,
      decode_Event = demo_decode_Event,
      decode_PromoCode = demo_decode_PromoCode,
      decode_Booking = demo_decode_Booking,
      literal_in_source_order = True,
      range_true_first = True\<rparr>"

definition demo_Client :: Client where
  "demo_Client =
     \<lparr>apiError.Error = [], Email = ''ann@example.org'', FirstName = [], LastName = [],
      MagicURL = [], AuthToken = [], StripeUser = None\<rparr>"

definition demo_Ticket :: Ticket where
  "demo_Ticket =
     \<lparr>Ticket.ID = 11, Ticket.Name = ''Standard'', Type = 1, Ticket.Currency = ''GBP'',
      Ticket.Price = Finite 10, Ticket.BookingFee = Finite 1, Ticket.Max = 3,
      SoldOut = False, Expired = False, Invalid = False\<rparr>"

definition demo_PromoCode :: PromoCode where
  "demo_PromoCode =
     \<lparr>apiError.Error = [], Code = ''SAVE10'', PromoCode.Price = Finite 8,
      PromoCode.BookingFee = Finite 1, PromoCode.Currency = ''GBP'', PromoCode.Max = 2,
      Remaining = 50\<rparr>"

definition demo_world :: world where
  "demo_world = \<lparr>requests = [], keys = 0\<rparr>"

section \<open>Properties\<close>

subsection \<open>Auxiliary facts: messages\<close>


lemma sublist_in_left: "sublist s a \<Longrightarrow> sublist s (a @ b)"
proof -
  assume "sublist s a"
  then obtain ps ss where "a = ps @ s @ ss" by (auto simp: sublist_def)
  then have "a @ b = ps @ s @ (ss @ b)" by simp
  then show ?thesis unfolding sublist_def by blast
qed



lemma mentions_sold_out: "mentions (New ''ticket selection has sold out'') ''sold out''"
  unfolding mentions_def by code_simp

lemma mentions_expired: "mentions (New ''ticket selection has expired'') ''expired''"
  unfolding mentions_def by code_simp

lemma expired_not_sold_out: "\<not> mentions (New ''ticket selection has expired'') ''sold out''"
  unfolding mentions_def by code_simp

lemma sold_out_no_tag: "\<not> mentions (New ''ticket selection has sold out'') ''error booking ticket''"
  unfolding mentions_def by code_simp

lemma mentions_maximum:
  "mentions (Errorf_d ''cannot purchase more than the maximum ('' m '')'') (fmt_d m)"
  "mentions (Errorf_d ''cannot purchase more than the maximum ('' m '')'') ''maximum''"
proof -
  show "mentions (Errorf_d ''cannot purchase more than the maximum ('' m '')'') (fmt_d m)"
    unfolding mentions_def Errorf_d_def Error_msg.simps by (rule sublist_appendI)
  have "sublist ''maximum'' ''cannot purchase more than the maximum (''"
    by code_simp
  then show "mentions (Errorf_d ''cannot purchase more than the maximum ('' m '')'') ''maximum''"
    unfolding mentions_def Errorf_d_def Error_msg.simps by (rule sublist_in_left)
qed

lemma fmt_d_demo:
  "fmt_d 0 = ''0''" "fmt_d 2 = ''2''" "fmt_d 3 = ''3''" "fmt_d 7 = ''7''" "fmt_d 8 = ''8''"
  "fmt_d 11 = ''11''"
  by code_simp+

subsection \<open>Auxiliary facts: headers and the envelope\<close>

text \<open>The three keys that \<^verbatim>\<open>req\<close> passes to \<^verbatim>\<open>Header.Set\<close> are canonical; the vendor keys are not.\<close>

lemma canonical_keys:
  "CanonicalMIMEHeaderKey ''User-Agent'' = ''User-Agent''"
  "CanonicalMIMEHeaderKey ''Authorization'' = ''Authorization''"
  "CanonicalMIMEHeaderKey ''Content-Type'' = ''Content-Type''"
  by code_simp+

lemma canonical_vendor_keys:
  "CanonicalMIMEHeaderKey ''FIXR-Platform'' = ''Fixr-Platform''"
  "CanonicalMIMEHeaderKey ''FIXR-Platform-Version'' = ''Fixr-Platform-Version''"
  "CanonicalMIMEHeaderKey ''FIXR-App-Version'' = ''Fixr-App-Version''"
  by code_simp+

lemma Client_req_headers_fields:
  "Method (Client_req_headers env c auth rq) = Method rq"
  "URL (Client_req_headers env c auth rq) = URL rq"
  "Body (Client_req_headers env c auth rq) = Body rq"
  by (simp_all add: Client_req_headers_def Header_Set_def Header_assign_def Let_def)

lemma apiError_params_simps:
  "error apiError_params a = (if apiError.Error a = [] then None else Some (New (apiError.Error a)))"
  "clearError apiError_params a = a\<lparr>apiError.Error := []\<rparr>"
  by (simp_all add: apiError_params_def apiError_error_def apiError_clearError_def)

lemma Event_params_simps:
  "error Event_params e = (if Event.Error e = [] then None else Some (New (Event.Error e)))"
  "clearError Event_params e = e\<lparr>Event.Error := []\<rparr>"
  by (simp_all add: Event_params_def Event_error_def Event_clearError_def)


lemma decodeJSONResponse_parsed:
  "dec b obj = (None, obj') \<Longrightarrow>
     decodeJSONResponse dec rp b obj = (error rp obj', clearError rp obj')"
  by (simp add: decodeJSONResponse_def)

lemma decodeJSONResponse_failed:
  "dec b obj = (Some err, obj') \<Longrightarrow>
     decodeJSONResponse dec rp b obj = (Some (Wrap err ''JSON decoding failed''), obj')"
  by (simp add: decodeJSONResponse_def)

text \<open>After a body that parsed, the error field of the target is empty.\<close>

lemma decodeJSONResponse_parsed_clears:
  "dec b obj = (None, obj') \<Longrightarrow>
     apiError.Error (snd (decodeJSONResponse dec apiError_params b obj)) = []"
  "dece b ev = (None, ev') \<Longrightarrow>
     Event.Error (snd (decodeJSONResponse dece Event_params b ev)) = []"
  by (simp_all add: decodeJSONResponse_parsed apiError_params_simps Event_params_simps)

lemma Client_req_requests:
  "requests (snd (Client_req env c rq auth rp dec obj w))
     = requests w @ [Client_req_headers env c auth rq]"
  "keys (snd (Client_req env c rq auth rp dec obj w)) = keys w"
  by (simp_all add: Client_req_def Let_def split: sum.splits)

lemma Client_req_answer:
  "httpClient_Do env (requests w) (Client_req_headers env c auth rq) = Inr b \<Longrightarrow>
     fst (Client_req env c rq auth rp dec obj w) = decodeJSONResponse dec rp b obj"
  by (simp add: Client_req_def Let_def)


lemma Client_post_parsed:
  assumes "NewRequest_URL env addr = Some u"
    and "httpClient_Do env (requests w) (Client_req_headers env c auth
           \<lparr>Method = ''POST'', URL = u, Header = Map.empty, Body = Some data\<rparr>) = Inr b"
    and "dec b obj = (None, obj')"
  shows "fst (Client_post env c addr data auth rp dec obj w) = (error rp obj', clearError rp obj')"
  using assms by (simp add: Client_post_def Client_req_answer decodeJSONResponse_parsed)

lemma Client_post_requests:
  "NewRequest_URL env addr = Some u \<Longrightarrow>
     requests (snd (Client_post env c addr data auth rp dec obj w))
       = requests w @ [Client_req_headers env c auth
            \<lparr>Method = ''POST'', URL = u, Header = Map.empty, Body = Some data\<rparr>]"
  by (simp add: Client_post_def Client_req_requests)

subsection \<open>Auxiliary facts: the operations\<close>

text \<open>
  The checks of \<^verbatim>\<open>Book\<close>, case by case. The order in which \<^verbatim>\<open>range\<close> visits the map has no
  effect. When both flags are set the two elements of the literal have the same key and
  the map holds one entry: the message of the element stored last.
\<close>

lemma Book_validate_eq:
  "Book_validate env t amount =
     (if SoldOut t \<and> Expired t
      then Some (New (if literal_in_source_order env then ''ticket selection has expired''
                      else ''ticket selection has sold out''))
      else if SoldOut t then Some (New ''ticket selection has sold out'')
      else if Expired t then Some (New ''ticket selection has expired'')
      else if amount > Ticket.Max t
      then Some (Errorf_d ''cannot purchase more than the maximum ('' (Ticket.Max t) '')'')
      else None)"
  by (cases "SoldOut t"; cases "Expired t"; cases "literal_in_source_order env";
      cases "range_true_first env")
     (simp_all add: Book_validate_def range_map_def map_literal_def List.map_filter_simps)

lemma Book_invalid:
  "Book_validate env t amount = Some e \<Longrightarrow>
     Client_Book env c (Some t) amount promo w = (Return (None, Some e), w)"
  by (simp add: Client_Book_def)

lemma Book_payload_requests:
  "requests (snd (Book_payload env t amount promo w)) = requests w"
  by (simp add: Book_payload_def Let_def split: option.splits)

lemma Book_payload_Code:
  "Code p1 = Code p2 \<Longrightarrow>
     Book_payload env t amount (Some p1) w = Book_payload env t amount (Some p2) w"
  by (simp add: Book_payload_def)

text \<open>A call of \<^verbatim>\<open>Book\<close> that passes the checks posts the encoding of its payload.\<close>

lemma Book_request:
  assumes "Book_validate env t amount = None"
    and "jsonifyPayload env (fst (Book_payload env t amount promo w)) = Inr data"
    and "NewRequest_URL env bookingURL = Some u"
  shows "requests (snd (Client_Book env c (Some t) amount promo w))
     = requests w @ [Client_req_headers env c True
          \<lparr>Method = ''POST'', URL = u, Header = Map.empty, Body = Some data\<rparr>]"
proof -
  obtain pl w1 where p: "Book_payload env t amount promo w = (pl, w1)"
    by (cases "Book_payload env t amount promo w")
  have w1: "requests w1 = requests w"
    using Book_payload_requests [of env t amount promo w] p by simp
  have "requests (snd (Client_post env c bookingURL data True apiError_params
          (decode_Booking env) Booking_zero w1))
      = requests w @ [Client_req_headers env c True
          \<lparr>Method = ''POST'', URL = u, Header = Map.empty, Body = Some data\<rparr>]"
    by (simp add: Client_post_requests [OF assms(3)] w1)
  then show ?thesis
    using assms(1,2) p
    by (auto simp add: Client_Book_def split: prod.splits option.splits)
qed




subsection \<open>Auxiliary facts: the concrete inputs\<close>


lemma demo_Do_POST:
  "httpClient_Do demo_env seen (Client_req_headers demo_env c auth
       \<lparr>Method = ''POST'', URL = bookingURL, Header = Map.empty, Body = Some data\<rparr>)
     = Inr ''{user_full_name: Ann Lee, state: 1}''"
  "httpClient_Do demo_env seen (Client_req_headers demo_env c auth
       \<lparr>Method = ''POST'', URL = loginURL, Header = Map.empty,
        Body = Some ''email=ann@example.org;password=wrong;''\<rparr>)
     = Inr ''{message: Bad password, first_name: Eve, last_name: Doe, magic_login_url: m, auth_token: t2}''"
  by (simp_all add: demo_env_def demo_httpClient_Do_def Client_req_headers_fields
      loginURL_def bookingURL_def)

lemma demo_decoders:
  "decode_Event demo_env ''{id: 7, name: Ball}'' Event_zero
     = (None, Event_zero\<lparr>Event.ID := 7, Event.Name := ''Ball''\<rparr>)"
  "decode_Event demo_env ''{detail: Not found.}'' Event_zero
     = (None, Event_zero\<lparr>Event.Error := ''Not found.''\<rparr>)"
  "decode_PromoCode demo_env ''{message: Invalid code}'' PromoCode_zero
     = (None, PromoCode_zero\<lparr>apiError.Error := ''Invalid code''\<rparr>)"
  "decode_Booking demo_env ''{user_full_name: Ann Lee, state: 1}'' Booking_zero
     = (None, Booking_zero\<lparr>Booking.Name := ''Ann Lee'', State := 1\<rparr>)"
  "decode_Client demo_env
       ''{message: Bad password, first_name: Eve, last_name: Doe, magic_login_url: m, auth_token: t2}'' c
     = (None, c\<lparr>apiError.Error := ''Bad password'', FirstName := ''Eve'', LastName := ''Doe'',
                   MagicURL := ''m'', AuthToken := ''t2''\<rparr>)"
  by (simp_all add: demo_env_def demo_decode_Event_def demo_decode_PromoCode_def
      demo_decode_Booking_def demo_decode_Client_def)

lemma demo_Book_ready:
  "Book_validate demo_env demo_Ticket 2 = None"
  "jsonifyPayload demo_env (fst (Book_payload demo_env demo_Ticket 2 None demo_world))
     = Inr ''amount=2;purchase_key=key0;ticket_id=11;''"
  "jsonifyPayload demo_env (fst (Book_payload demo_env demo_Ticket 2 (Some demo_PromoCode) demo_world))
     = Inr ''amount=2;promo_code=SAVE10;purchase_key=key0;ticket_id=11;''"
  "NewRequest_URL demo_env a = Some a"
  by (simp_all add: Book_validate_eq Book_payload_def demo_env_def demo_Ticket_def demo_world_def
      demo_PromoCode_def demo_jsonifyPayload_def fmt_d_demo)

subsection \<open>Sold out and expired\<close>

text \<open>
  Claim C1, as the code has it. For a ticket with \<open>SoldOut\<close> set, \<^verbatim>\<open>Book\<close> returns no
  booking and an error, and leaves the world as it was (no request, no key); the error
  mentions "sold out" or "expired", and it mentions "sold out" whenever \<open>Expired\<close> is not
  set, whatever the other fields are. For a ticket with \<open>Expired\<close> set and \<open>SoldOut\<close> not
  set, the error mentions "expired". Nothing is said on which of the two messages a
  ticket with both flags gets.
\<close>

theorem Book_sold_out_or_expired:
  "(SoldOut t \<longrightarrow>
      (\<exists>e. Client_Book env c (Some t) amount promo w = (Return (None, Some e), w)
           \<and> (mentions e ''sold out'' \<or> mentions e ''expired'')
           \<and> (\<not> Expired t \<longrightarrow> mentions e ''sold out'')))
   \<and> (\<not> SoldOut t \<and> Expired t \<longrightarrow>
      (\<exists>e. Client_Book env c (Some t) amount promo w = (Return (None, Some e), w)
           \<and> mentions e ''expired''))"
proof (intro conjI impI)
  assume "SoldOut t"
  define e where "e = New (if Expired t \<and> literal_in_source_order env
                           then ''ticket selection has expired''
                           else ''ticket selection has sold out'')"
  have e: "Book_validate env t amount = Some e"
      "mentions e ''sold out'' \<or> mentions e ''expired''"
      "\<not> Expired t \<longrightarrow> mentions e ''sold out''"
    using \<open>SoldOut t\<close>
    by (simp_all add: e_def Book_validate_eq mentions_sold_out mentions_expired)
  from Book_invalid [OF e(1)] e(2,3)
  show "\<exists>e. Client_Book env c (Some t) amount promo w = (Return (None, Some e), w)
           \<and> (mentions e ''sold out'' \<or> mentions e ''expired'')
           \<and> (\<not> Expired t \<longrightarrow> mentions e ''sold out'')"
    by blast
next
  assume "\<not> SoldOut t \<and> Expired t"
  then have "Book_validate env t amount = Some (New ''ticket selection has expired'')"
    by (simp add: Book_validate_eq)
  from Book_invalid [OF this] mentions_expired
  show "\<exists>e. Client_Book env c (Some t) amount promo w = (Return (None, Some e), w)
           \<and> mentions e ''expired''"
    by blast
qed

text \<open>A sold-out ticket that has not expired, and an expired ticket that is not sold out.\<close>

theorem Book_sold_out_or_expired_witness:
  "SoldOut (demo_Ticket\<lparr>SoldOut := True\<rparr>)
   \<and> (\<exists>e. Client_Book demo_env demo_Client (Some (demo_Ticket\<lparr>SoldOut := True\<rparr>)) 1 None demo_world
            = (Return (None, Some e), demo_world)
          \<and> mentions e ''sold out'')
   \<and> Expired (demo_Ticket\<lparr>Expired := True\<rparr>)
   \<and> (\<exists>e. Client_Book demo_env demo_Client (Some (demo_Ticket\<lparr>Expired := True\<rparr>)) 1 None demo_world
            = (Return (None, Some e), demo_world)
          \<and> mentions e ''expired'')"
  using Book_sold_out_or_expired [of "demo_Ticket\<lparr>SoldOut := True\<rparr>" demo_env demo_Client 1 None demo_world]
    Book_sold_out_or_expired [of "demo_Ticket\<lparr>Expired := True\<rparr>" demo_env demo_Client 1 None demo_world]
  by (auto simp add: demo_Ticket_def)

text \<open>
  The claim as stated fails for a ticket that is both sold out and expired: with the
  literal stored in source order the map is \<open>{true: "ticket selection has expired"}\<close>, and
  the error of \<^verbatim>\<open>Book\<close> does not mention "sold out".
\<close>

theorem Book_sold_out_and_expired_counterexample:
  "SoldOut (demo_Ticket\<lparr>SoldOut := True, Expired := True\<rparr>)
   \<and> fst (Client_Book demo_env demo_Client
            (Some (demo_Ticket\<lparr>SoldOut := True, Expired := True\<rparr>)) 1 None demo_world)
       = Return (None, Some (New ''ticket selection has expired''))
   \<and> \<not> mentions (New ''ticket selection has expired'') ''sold out''"
  by (simp add: Book_invalid Book_validate_eq demo_Ticket_def demo_env_def expired_not_sold_out)

subsection \<open>The envelope on a body that does not parse\<close>

text \<open>
  Claim C2 says that \<^verbatim>\<open>clearError\<close> runs on every outcome of \<^verbatim>\<open>decodeJSONResponse\<close>. The code
  returns on a decoding error before it defers \<^verbatim>\<open>clearError\<close>. At the body
  \<open>{message: boom, auth_token: 5}\<close> the decoder has stored the message when it reports the
  member of the wrong type, and the client keeps the message \<open>boom\<close> after the call.
\<close>

theorem decodeJSONResponse_parse_failure:
  "decodeJSONResponse (decode_Client demo_env) apiError_params ''{message: boom, auth_token: 5}''
       demo_Client
     = (Some (Wrap (New ''json: cannot unmarshal number into Go struct field Client.auth_token of type string'')
                ''JSON decoding failed''),
        demo_Client\<lparr>apiError.Error := ''boom''\<rparr>)
   \<and> apiError.Error (snd (decodeJSONResponse (decode_Client demo_env) apiError_params
         ''{message: boom, auth_token: 5}'' demo_Client)) = ''boom''"
  by (simp add: decodeJSONResponse_def demo_env_def demo_decode_Client_def)

text \<open>
  What the message left behind does: a logon that gets this body fails, and the next
  logon of the same client, answered with a body that has no message, fails with \<open>boom\<close>.
\<close>

lemma Logon_after_parse_failure:
  "fst (fst (Client_Logon demo_env
       (snd (fst (Client_Logon demo_env demo_Client ''odd'' demo_world))) ''secret''
       (snd (Client_Logon demo_env demo_Client ''odd'' demo_world))))
     = Some (Wrap (New ''boom'') ''error logging on'')"
  by code_simp

subsection \<open>The result of a body that parses\<close>



subsection \<open>The maximum\<close>

text \<open>
  Claim C4. When the ticket is neither sold out nor expired and the amount is above
  \<open>Max\<close>, \<^verbatim>\<open>Book\<close> returns no booking and an error that mentions the maximum, printed in
  decimal, and the world is as before: no request went out. Every failed check returns
  with the world unchanged, and a call that sent a request passed every check.
\<close>

theorem Book_maximum:
  "(\<not> SoldOut t \<and> \<not> Expired t \<and> amount > Ticket.Max t \<longrightarrow>
      (\<exists>e. Client_Book env c (Some t) amount promo w = (Return (None, Some e), w)
           \<and> mentions e (fmt_d (Ticket.Max t)) \<and> mentions e ''maximum''))
   \<and> (\<forall>e. Book_validate env t amount = Some e \<longrightarrow>
         Client_Book env c (Some t) amount promo w = (Return (None, Some e), w))
   \<and> (requests (snd (Client_Book env c (Some t) amount promo w)) \<noteq> requests w \<longrightarrow>
         Book_validate env t amount = None)"
proof (intro conjI impI allI)
  assume a: "\<not> SoldOut t \<and> \<not> Expired t \<and> amount > Ticket.Max t"
  then have "Book_validate env t amount
      = Some (Errorf_d ''cannot purchase more than the maximum ('' (Ticket.Max t) '')'')"
    by (simp add: Book_validate_eq)
  from Book_invalid [OF this] mentions_maximum
  show "\<exists>e. Client_Book env c (Some t) amount promo w = (Return (None, Some e), w)
           \<and> mentions e (fmt_d (Ticket.Max t)) \<and> mentions e ''maximum''"
    by blast
next
  fix e assume "Book_validate env t amount = Some e"
  then show "Client_Book env c (Some t) amount promo w = (Return (None, Some e), w)"
    by (rule Book_invalid)
next
  assume r: "requests (snd (Client_Book env c (Some t) amount promo w)) \<noteq> requests w"
  show "Book_validate env t amount = None"
  proof (cases "Book_validate env t amount")
    case None
    then show ?thesis .
  next
    case (Some e)
    from Book_invalid [OF this] r show ?thesis by simp
  qed
qed

text \<open>An amount of 5 for a ticket with a maximum of 3.\<close>

theorem Book_maximum_witness:
  "\<not> SoldOut demo_Ticket \<and> \<not> Expired demo_Ticket \<and> 5 > Ticket.Max demo_Ticket
   \<and> Client_Book demo_env demo_Client (Some demo_Ticket) 5 None demo_world
       = (Return (None, Some (New ''cannot purchase more than the maximum (3)'')), demo_world)
   \<and> mentions (New ''cannot purchase more than the maximum (3)'') ''3''"
proof -
  have v: "Book_validate demo_env demo_Ticket 5
      = Some (New ''cannot purchase more than the maximum (3)'')"
    by (simp add: Book_validate_eq demo_Ticket_def Errorf_d_def fmt_d_demo)
  from Book_maximum [of demo_Ticket 5 demo_env demo_Client None demo_world] v
  show ?thesis
    by (auto simp add: demo_Ticket_def fmt_d_demo)
qed

subsection \<open>The purchase key\<close>

text \<open>
  Claim C5. The payload of \<^verbatim>\<open>Book\<close> holds the field \<open>purchase_key\<close> exactly when the sum of
  the booking fee and the price of the ticket is above zero, and its value is then the
  key that \<^verbatim>\<open>genKey\<close> produced; for a ticket with price and fee zero the field is absent.
  This payload is the one that goes out: a call that passes the checks posts its
  encoding to the booking address.
\<close>

theorem Book_purchase_key:
  "fst (Book_payload env t amount promo w) ''purchase_key''
     = (if f64_gt_zero (f64_add (Ticket.BookingFee t) (Ticket.Price t))
        then Some (AnyString (genKey env (keys w))) else None)
   \<and> (Ticket.Price t = Finite 0 \<and> Ticket.BookingFee t = Finite 0 \<longrightarrow>
        fst (Book_payload env t amount promo w) ''purchase_key'' = None)
   \<and> (Book_validate env t amount = None
        \<and> jsonifyPayload env (fst (Book_payload env t amount promo w)) = Inr data
        \<and> NewRequest_URL env bookingURL = Some u \<longrightarrow>
        requests (snd (Client_Book env c (Some t) amount promo w))
          = requests w @ [Client_req_headers env c True
              \<lparr>Method = ''POST'', URL = u, Header = Map.empty, Body = Some data\<rparr>])"
proof (intro conjI impI)
  show k: "fst (Book_payload env t amount promo w) ''purchase_key''
     = (if f64_gt_zero (f64_add (Ticket.BookingFee t) (Ticket.Price t))
        then Some (AnyString (genKey env (keys w))) else None)"
    by (simp add: Book_payload_def Let_def split: option.splits)
  show "fst (Book_payload env t amount promo w) ''purchase_key'' = None"
    if "Ticket.Price t = Finite 0 \<and> Ticket.BookingFee t = Finite 0"
    using that by (simp add: k)
  show "requests (snd (Client_Book env c (Some t) amount promo w))
          = requests w @ [Client_req_headers env c True
              \<lparr>Method = ''POST'', URL = u, Header = Map.empty, Body = Some data\<rparr>]"
    if "Book_validate env t amount = None
        \<and> jsonifyPayload env (fst (Book_payload env t amount promo w)) = Inr data
        \<and> NewRequest_URL env bookingURL = Some u"
    using that Book_request by blast
qed

text \<open>A free ticket, and a ticket of price 10 and fee 1 whose request carries the key.\<close>

theorem Book_purchase_key_witness:
  "Ticket.Price (demo_Ticket\<lparr>Ticket.Price := Finite 0, Ticket.BookingFee := Finite 0\<rparr>) = Finite 0
   \<and> Ticket.BookingFee (demo_Ticket\<lparr>Ticket.Price := Finite 0, Ticket.BookingFee := Finite 0\<rparr>)
       = Finite 0
   \<and> fst (Book_payload demo_env
          (demo_Ticket\<lparr>Ticket.Price := Finite 0, Ticket.BookingFee := Finite 0\<rparr>) 2 None demo_world)
        ''purchase_key'' = None
   \<and> Book_validate demo_env demo_Ticket 2 = None
   \<and> jsonifyPayload demo_env (fst (Book_payload demo_env demo_Ticket 2 None demo_world))
        = Inr ''amount=2;purchase_key=key0;ticket_id=11;''
   \<and> NewRequest_URL demo_env bookingURL = Some bookingURL
   \<and> map Body (requests (snd (Client_Book demo_env demo_Client (Some demo_Ticket) 2 None demo_world)))
        = [Some ''amount=2;purchase_key=key0;ticket_id=11;'']"
proof -
  from Book_purchase_key [of demo_env
      "demo_Ticket\<lparr>Ticket.Price := Finite 0, Ticket.BookingFee := Finite 0\<rparr>" 2 None demo_world
      "''x''" bookingURL demo_Client]
  have free: "fst (Book_payload demo_env
          (demo_Ticket\<lparr>Ticket.Price := Finite 0, Ticket.BookingFee := Finite 0\<rparr>) 2 None demo_world)
        ''purchase_key'' = None"
    by simp
  from Book_purchase_key [of demo_env demo_Ticket 2 None demo_world
      "''amount=2;purchase_key=key0;ticket_id=11;''" bookingURL demo_Client]
    demo_Book_ready(1,2,4)
  have "map Body (requests (snd (Client_Book demo_env demo_Client (Some demo_Ticket) 2 None demo_world)))
        = [Some ''amount=2;purchase_key=key0;ticket_id=11;'']"
    by (simp add: Client_req_headers_fields demo_world_def)
  with demo_Book_ready(1,2,4) free show ?thesis by simp
qed

subsection \<open>The promotional code in the payload\<close>

text \<open>
  Claim C6. The payload of \<^verbatim>\<open>Book\<close> holds the field \<open>promo_code\<close> exactly when the promo
  argument is not nil, and its value is then the \<open>Code\<close> of the argument. This payload is
  the one that goes out.
\<close>

theorem Book_promo_code:
  "fst (Book_payload env t amount promo w) ''promo_code''
     = (case promo of None \<Rightarrow> None | Some p \<Rightarrow> Some (AnyString (Code p)))
   \<and> (Book_validate env t amount = None
        \<and> jsonifyPayload env (fst (Book_payload env t amount promo w)) = Inr data
        \<and> NewRequest_URL env bookingURL = Some u \<longrightarrow>
        requests (snd (Client_Book env c (Some t) amount promo w))
          = requests w @ [Client_req_headers env c True
              \<lparr>Method = ''POST'', URL = u, Header = Map.empty, Body = Some data\<rparr>])"
proof (intro conjI impI)
  show "fst (Book_payload env t amount promo w) ''promo_code''
     = (case promo of None \<Rightarrow> None | Some p \<Rightarrow> Some (AnyString (Code p)))"
    by (simp add: Book_payload_def Let_def split: option.splits)
  show "requests (snd (Client_Book env c (Some t) amount promo w))
          = requests w @ [Client_req_headers env c True
              \<lparr>Method = ''POST'', URL = u, Header = Map.empty, Body = Some data\<rparr>]"
    if "Book_validate env t amount = None
        \<and> jsonifyPayload env (fst (Book_payload env t amount promo w)) = Inr data
        \<and> NewRequest_URL env bookingURL = Some u"
    using that Book_request by blast
qed

text \<open>The code \<open>SAVE10\<close>, and no code.\<close>

theorem Book_promo_code_witness:
  "Book_validate demo_env demo_Ticket 2 = None
   \<and> jsonifyPayload demo_env (fst (Book_payload demo_env demo_Ticket 2 (Some demo_PromoCode) demo_world))
        = Inr ''amount=2;promo_code=SAVE10;purchase_key=key0;ticket_id=11;''
   \<and> NewRequest_URL demo_env bookingURL = Some bookingURL
   \<and> map Body (requests (snd (Client_Book demo_env demo_Client (Some demo_Ticket) 2
          (Some demo_PromoCode) demo_world)))
        = [Some ''amount=2;promo_code=SAVE10;purchase_key=key0;ticket_id=11;'']
   \<and> fst (Book_payload demo_env demo_Ticket 2 (Some demo_PromoCode) demo_world) ''promo_code''
        = Some (AnyString ''SAVE10'')
   \<and> fst (Book_payload demo_env demo_Ticket 2 None demo_world) ''promo_code'' = None"
proof -
  from Book_promo_code [of demo_env demo_Ticket 2 "Some demo_PromoCode" demo_world
      "''amount=2;promo_code=SAVE10;purchase_key=key0;ticket_id=11;''" bookingURL demo_Client]
    demo_Book_ready(1,3,4)
  have "map Body (requests (snd (Client_Book demo_env demo_Client (Some demo_Ticket) 2
          (Some demo_PromoCode) demo_world)))
        = [Some ''amount=2;promo_code=SAVE10;purchase_key=key0;ticket_id=11;'']"
    and "fst (Book_payload demo_env demo_Ticket 2 (Some demo_PromoCode) demo_world) ''promo_code''
        = Some (AnyString ''SAVE10'')"
    by (simp_all add: Client_req_headers_fields demo_world_def demo_PromoCode_def)
  moreover from Book_promo_code [of demo_env demo_Ticket 2 None demo_world "''x''" bookingURL
      demo_Client]
  have "fst (Book_payload demo_env demo_Ticket 2 None demo_world) ''promo_code'' = None"
    by simp
  ultimately show ?thesis using demo_Book_ready(1,3,4) by simp
qed

subsection \<open>Results, errors and tags\<close>

text \<open>
  Claim C7, as the code has it. \<^verbatim>\<open>Event\<close>, \<^verbatim>\<open>Promo\<close> and \<^verbatim>\<open>Book\<close> (on a ticket that is not
  nil) return either a result and no error, or no result and an error. Every error of
  \<^verbatim>\<open>Event\<close> and of \<^verbatim>\<open>Promo\<close> is wrapped with the tag of the operation. An error of \<^verbatim>\<open>Book\<close>
  or of \<^verbatim>\<open>Logon\<close> is wrapped with the tag when it comes from the dispatcher; the error of
  a failed check of \<^verbatim>\<open>Book\<close> and the error of \<^verbatim>\<open>jsonifyPayload\<close> are returned as they are.
\<close>

theorem results_and_tags:
  "((\<exists>e. fst (Client_Event env c i w) = (Some e, None))
     \<or> (\<exists>err. fst (Client_Event env c i w) = (None, Some (Wrap err ''error getting event''))))
   \<and> ((\<exists>p. fst (Client_Promo env c ticketID code w) = (Some p, None))
     \<or> (\<exists>err. fst (Client_Promo env c ticketID code w)
            = (None, Some (Wrap err ''error getting promo code''))))
   \<and> ((\<exists>b. fst (Client_Book env c (Some t) amount promo w) = Return (Some b, None))
     \<or> (\<exists>err. fst (Client_Book env c (Some t) amount promo w)
            = Return (None, Some (Wrap err ''error booking ticket'')))
     \<or> (\<exists>err. Book_validate env t amount = Some err
            \<and> fst (Client_Book env c (Some t) amount promo w) = Return (None, Some err))
     \<or> (\<exists>err. jsonifyPayload env (fst (Book_payload env t amount promo w)) = Inl err
            \<and> fst (Client_Book env c (Some t) amount promo w) = Return (None, Some err)))
   \<and> (fst (fst (Client_Logon env c pass w)) = None
     \<or> (\<exists>err. fst (fst (Client_Logon env c pass w)) = Some (Wrap err ''error logging on''))
     \<or> (\<exists>err. jsonifyPayload env [''email'' \<mapsto> AnyString (Email c), ''password'' \<mapsto> AnyString pass]
              = Inl err
            \<and> fst (fst (Client_Logon env c pass w)) = Some err))"
proof (intro conjI)
  show "(\<exists>e. fst (Client_Event env c i w) = (Some e, None))
     \<or> (\<exists>err. fst (Client_Event env c i w) = (None, Some (Wrap err ''error getting event'')))"
    by (simp add: Client_Event_def split: prod.splits option.splits)
  show "(\<exists>p. fst (Client_Promo env c ticketID code w) = (Some p, None))
     \<or> (\<exists>err. fst (Client_Promo env c ticketID code w)
            = (None, Some (Wrap err ''error getting promo code'')))"
    by (simp add: Client_Promo_def split: prod.splits option.splits)
  show "(\<exists>b. fst (Client_Book env c (Some t) amount promo w) = Return (Some b, None))
     \<or> (\<exists>err. fst (Client_Book env c (Some t) amount promo w)
            = Return (None, Some (Wrap err ''error booking ticket'')))
     \<or> (\<exists>err. Book_validate env t amount = Some err
            \<and> fst (Client_Book env c (Some t) amount promo w) = Return (None, Some err))
     \<or> (\<exists>err. jsonifyPayload env (fst (Book_payload env t amount promo w)) = Inl err
            \<and> fst (Client_Book env c (Some t) amount promo w) = Return (None, Some err))"
    by (simp add: Client_Book_def split: prod.splits option.splits sum.splits)
  show "fst (fst (Client_Logon env c pass w)) = None
     \<or> (\<exists>err. fst (fst (Client_Logon env c pass w)) = Some (Wrap err ''error logging on''))
     \<or> (\<exists>err. jsonifyPayload env [''email'' \<mapsto> AnyString (Email c), ''password'' \<mapsto> AnyString pass]
              = Inl err
            \<and> fst (fst (Client_Logon env c pass w)) = Some err)"
    by (simp add: Client_Logon_def split: prod.splits option.splits sum.splits)
qed

text \<open>
  The claim as stated fails for a sold-out ticket: the error of \<^verbatim>\<open>Book\<close> is the message of
  the check, without the tag.
\<close>

theorem Book_error_without_tag_counterexample:
  "fst (Client_Book demo_env demo_Client (Some (demo_Ticket\<lparr>SoldOut := True\<rparr>)) 1 None demo_world)
     = Return (None, Some (New ''ticket selection has sold out''))
   \<and> \<not> mentions (New ''ticket selection has sold out'') ''error booking ticket''"
  by (simp add: Book_invalid Book_validate_eq demo_Ticket_def sold_out_no_tag)

subsection \<open>The headers of a request\<close>

text \<open>
  Claim C8. The request that \<^verbatim>\<open>req\<close> hands to the transport has the user agent set. When
  its address is the card address, its content type is the URL-encoded form type and \<^verbatim>\<open>req\<close>
  adds no vendor header. Otherwise its content type is the JSON type and the headers
  \<open>FIXR-Platform\<close> (\<open>web\<close>), \<open>FIXR-Platform-Version\<close> and \<open>FIXR-App-Version\<close> are stored under
  these keys as written; nothing is stored under their canonical forms. When the call is
  authenticated the header \<open>Authorization\<close> is \<open>Token\<close>, a space, and the token of the
  client, also when the token is empty; when it is not, \<^verbatim>\<open>req\<close> sets no such header.
\<close>

theorem req_headers:
  "requests (snd (Client_req env c rq auth rp dec obj w))
      = requests w @ [Client_req_headers env c auth rq]
   \<and> Header (Client_req_headers env c auth rq) ''User-Agent'' = Some [UserAgent env]
   \<and> (URL rq = cardURL \<longrightarrow>
        Header (Client_req_headers env c auth rq) ''Content-Type''
          = Some [''application/x-www-form-urlencoded'']
        \<and> Header (Client_req_headers env c auth rq) ''FIXR-Platform'' = Header rq ''FIXR-Platform''
        \<and> Header (Client_req_headers env c auth rq) ''FIXR-Platform-Version''
            = Header rq ''FIXR-Platform-Version''
        \<and> Header (Client_req_headers env c auth rq) ''FIXR-App-Version''
            = Header rq ''FIXR-App-Version'')
   \<and> (URL rq \<noteq> cardURL \<longrightarrow>
        Header (Client_req_headers env c auth rq) ''Content-Type'' = Some [''application/json'']
        \<and> Header (Client_req_headers env c auth rq) ''FIXR-Platform'' = Some [''web'']
        \<and> Header (Client_req_headers env c auth rq) ''FIXR-Platform-Version''
            = Some [FixrPlatformVer env]
        \<and> Header (Client_req_headers env c auth rq) ''FIXR-App-Version'' = Some [FixrVersion env]
        \<and> Header (Client_req_headers env c auth rq) (CanonicalMIMEHeaderKey ''FIXR-Platform'')
            = Header rq (CanonicalMIMEHeaderKey ''FIXR-Platform'')
        \<and> Header (Client_req_headers env c auth rq) (CanonicalMIMEHeaderKey ''FIXR-Platform-Version'')
            = Header rq (CanonicalMIMEHeaderKey ''FIXR-Platform-Version'')
        \<and> Header (Client_req_headers env c auth rq) (CanonicalMIMEHeaderKey ''FIXR-App-Version'')
            = Header rq (CanonicalMIMEHeaderKey ''FIXR-App-Version''))
   \<and> (auth \<longrightarrow>
        Header (Client_req_headers env c auth rq) ''Authorization'' = Some [''Token '' @ AuthToken c])
   \<and> (auth \<and> AuthToken c = [] \<longrightarrow>
        Header (Client_req_headers env c auth rq) ''Authorization'' = Some [''Token ''])
   \<and> (\<not> auth \<longrightarrow>
        Header (Client_req_headers env c auth rq) ''Authorization'' = Header rq ''Authorization'')"
proof -
  have sent: "requests (snd (Client_req env c rq auth rp dec obj w))
      = requests w @ [Client_req_headers env c auth rq]"
    by (rule Client_req_requests)
  have card: "URL rq = cardURL \<Longrightarrow>
      Header (Client_req_headers env c auth rq)
        = (if auth then ((Header rq)(''User-Agent'' \<mapsto> [UserAgent env]))
                          (''Authorization'' \<mapsto> [''Token '' @ AuthToken c])
           else (Header rq)(''User-Agent'' \<mapsto> [UserAgent env]))
          (''Content-Type'' \<mapsto> [''application/x-www-form-urlencoded''])"
    by (simp add: Client_req_headers_def Header_Set_def Let_def canonical_keys)
  have json: "URL rq \<noteq> cardURL \<Longrightarrow>
      Header (Client_req_headers env c auth rq)
        = (if auth then ((Header rq)(''User-Agent'' \<mapsto> [UserAgent env]))
                          (''Authorization'' \<mapsto> [''Token '' @ AuthToken c])
           else (Header rq)(''User-Agent'' \<mapsto> [UserAgent env]))
          (''Content-Type'' \<mapsto> [''application/json''], ''FIXR-Platform'' \<mapsto> [''web''],
           ''FIXR-Platform-Version'' \<mapsto> [FixrPlatformVer env],
           ''FIXR-App-Version'' \<mapsto> [FixrVersion env])"
    by (simp add: Client_req_headers_def Header_Set_def Header_assign_def Let_def canonical_keys)
  show ?thesis
  proof (cases "URL rq = cardURL")
    case True
    from sent card [OF True] show ?thesis
      by (cases auth) (simp_all add: True)
  next
    case False
    from sent json [OF False] show ?thesis
      by (cases auth) (simp_all add: False canonical_vendor_keys)
  qed
qed

text \<open>
  A request to the card address from a client that has not logged on, and the request of
  an event.
\<close>

theorem req_headers_witness:
  "URL \<lparr>Method = ''POST'', URL = cardURL, Header = Map.empty, Body = Some ''card''\<rparr> = cardURL
   \<and> Header (Client_req_headers demo_env demo_Client True
         \<lparr>Method = ''POST'', URL = cardURL, Header = Map.empty, Body = Some ''card''\<rparr>) ''Content-Type''
       = Some [''application/x-www-form-urlencoded'']
   \<and> Header (Client_req_headers demo_env demo_Client True
         \<lparr>Method = ''POST'', URL = cardURL, Header = Map.empty, Body = Some ''card''\<rparr>) ''FIXR-Platform''
       = None
   \<and> AuthToken demo_Client = []
   \<and> Header (Client_req_headers demo_env demo_Client True
         \<lparr>Method = ''POST'', URL = cardURL, Header = Map.empty, Body = Some ''card''\<rparr>) ''Authorization''
       = Some [''Token '']
   \<and> URL \<lparr>Method = ''GET'', URL = eventURL 7, Header = Map.empty, Body = None\<rparr> \<noteq> cardURL
   \<and> Header (Client_req_headers demo_env demo_Client False
         \<lparr>Method = ''GET'', URL = eventURL 7, Header = Map.empty, Body = None\<rparr>) ''Content-Type''
       = Some [''application/json'']
   \<and> Header (Client_req_headers demo_env demo_Client False
         \<lparr>Method = ''GET'', URL = eventURL 7, Header = Map.empty, Body = None\<rparr>) ''FIXR-Platform''
       = Some [''web'']
   \<and> Header (Client_req_headers demo_env demo_Client False
         \<lparr>Method = ''GET'', URL = eventURL 7, Header = Map.empty, Body = None\<rparr>) ''FIXR-App-Version''
       = Some [''1.34.0'']
   \<and> Header (Client_req_headers demo_env demo_Client False
         \<lparr>Method = ''GET'', URL = eventURL 7, Header = Map.empty, Body = None\<rparr>) ''Fixr-Platform''
       = None
   \<and> Header (Client_req_headers demo_env demo_Client False
         \<lparr>Method = ''GET'', URL = eventURL 7, Header = Map.empty, Body = None\<rparr>) ''Authorization''
       = None"
  using req_headers [of demo_env demo_Client
      "\<lparr>Method = ''POST'', URL = cardURL, Header = Map.empty, Body = Some ''card''\<rparr>" True
      apiError_params "decode_Client demo_env" demo_Client demo_world]
    req_headers [of demo_env demo_Client
      "\<lparr>Method = ''GET'', URL = eventURL 7, Header = Map.empty, Body = None\<rparr>" False
      Event_params "decode_Event demo_env" Event_zero demo_world]
  by (simp add: demo_Client_def demo_env_def eventURL_def cardURL_def canonical_vendor_keys)

subsection \<open>A failed logon changes the client\<close>

text \<open>
  Claim C9. When the body of the answer to a logon parses and its error field is not
  empty, \<^verbatim>\<open>Logon\<close> returns the error, and the client is the decoded value with the error
  field cleared: its first name, last name, magic address, token and payment profile are
  those of the body, whatever they were before the call.
\<close>

theorem Logon_not_atomic:
  assumes "jsonifyPayload env [''email'' \<mapsto> AnyString (Email c), ''password'' \<mapsto> AnyString pass]
      = Inr data"
    and "NewRequest_URL env loginURL = Some u"
    and "httpClient_Do env (requests w) (Client_req_headers env c False
           \<lparr>Method = ''POST'', URL = u, Header = Map.empty, Body = Some data\<rparr>) = Inr b"
    and "decode_Client env b c = (None, c')"
    and "apiError.Error c' \<noteq> []"
  shows "fst (Client_Logon env c pass w)
      = (Some (Wrap (New (apiError.Error c')) ''error logging on''), c'\<lparr>apiError.Error := []\<rparr>)
    \<and> FirstName (snd (fst (Client_Logon env c pass w))) = FirstName c'
    \<and> LastName (snd (fst (Client_Logon env c pass w))) = LastName c'
    \<and> MagicURL (snd (fst (Client_Logon env c pass w))) = MagicURL c'
    \<and> AuthToken (snd (fst (Client_Logon env c pass w))) = AuthToken c'
    \<and> StripeUser (snd (fst (Client_Logon env c pass w))) = StripeUser c'"
proof -
  obtain r w' where r: "Client_post env c loginURL data False apiError_params
      (decode_Client env) c w = (r, w')"
    by (cases "Client_post env c loginURL data False apiError_params (decode_Client env) c w")
  from Client_post_parsed [where dec="decode_Client env" and obj=c and rp=apiError_params,
      OF assms(2) assms(3) assms(4)] r
  have "r = (error apiError_params c', clearError apiError_params c')" by simp
  with r assms(1,5) show ?thesis
    by (simp add: Client_Logon_def apiError_params_simps)
qed

text \<open>A logon with a wrong password: it fails, and the client has a new name and a new token.\<close>

theorem Logon_not_atomic_witness:
  "fst (Client_Logon demo_env demo_Client ''wrong'' demo_world)
      = (Some (Wrap (New ''Bad password'') ''error logging on''),
         demo_Client\<lparr>FirstName := ''Eve'', LastName := ''Doe'', MagicURL := ''m'', AuthToken := ''t2''\<rparr>)
   \<and> snd (fst (Client_Logon demo_env demo_Client ''wrong'' demo_world)) \<noteq> demo_Client
   \<and> AuthToken (snd (fst (Client_Logon demo_env demo_Client ''wrong'' demo_world))) = ''t2''
   \<and> AuthToken demo_Client = []"
proof -
  have j: "jsonifyPayload demo_env
      [''email'' \<mapsto> AnyString (Email demo_Client), ''password'' \<mapsto> AnyString ''wrong'']
      = Inr ''email=ann@example.org;password=wrong;''"
    by (simp add: demo_env_def demo_jsonifyPayload_def demo_Client_def)
  have e: "apiError.Error (demo_Client\<lparr>apiError.Error := ''Bad password'', FirstName := ''Eve'',
      LastName := ''Doe'', MagicURL := ''m'', AuthToken := ''t2''\<rparr>) \<noteq> []"
    by simp
  from Logon_not_atomic [OF j demo_Book_ready(4) demo_Do_POST(2) demo_decoders(5) e]
  show ?thesis
    by (simp add: demo_Client_def)
qed

subsection \<open>What Book reads of the promotional code\<close>

text \<open>
  Claim C10. \<^verbatim>\<open>Book\<close> reads of a promotional code its \<open>Code\<close> and nothing else: two codes
  with the same \<open>Code\<close> give the same payload, the same key count, the same requests and
  the same result, whatever their other fields hold. The checks do not take the code at
  all: \<open>Book_validate\<close> has no such argument.
\<close>

theorem Book_promo_code_only:
  assumes "Code p1 = Code p2"
  shows "Client_Book env c ticket amount (Some p1) w = Client_Book env c ticket amount (Some p2) w
     \<and> Book_payload env t amount (Some p1) w = Book_payload env t amount (Some p2) w"
proof
  have pl: "Book_payload env t' amount (Some p1) w = Book_payload env t' amount (Some p2) w" for t'
    using assms by (rule Book_payload_Code)
  show "Client_Book env c ticket amount (Some p1) w = Client_Book env c ticket amount (Some p2) w"
  proof (cases ticket)
    case None
    then show ?thesis by (simp add: Client_Book_def)
  next
    case (Some t')
    then show ?thesis by (simp add: Client_Book_def pl split: option.splits)
  qed
  show "Book_payload env t amount (Some p1) w = Book_payload env t amount (Some p2) w"
    by (rule pl)
qed

text \<open>Two codes \<open>SAVE10\<close> that differ in every other field.\<close>

theorem Book_promo_code_only_witness:
  "Code demo_PromoCode = Code (demo_PromoCode\<lparr>PromoCode.Price := Finite 0,
       PromoCode.BookingFee := Finite 3, PromoCode.Currency := ''EUR'', PromoCode.Max := 9,
       Remaining := 0\<rparr>)
   \<and> PromoCode.Price demo_PromoCode \<noteq> Finite 0
   \<and> Client_Book demo_env demo_Client (Some demo_Ticket) 1 (Some demo_PromoCode) demo_world
       = Client_Book demo_env demo_Client (Some demo_Ticket) 1
           (Some (demo_PromoCode\<lparr>PromoCode.Price := Finite 0, PromoCode.BookingFee := Finite 3,
              PromoCode.Currency := ''EUR'', PromoCode.Max := 9, Remaining := 0\<rparr>)) demo_world"
  using Book_promo_code_only [of demo_PromoCode
      "demo_PromoCode\<lparr>PromoCode.Price := Finite 0, PromoCode.BookingFee := Finite 3,
         PromoCode.Currency := ''EUR'', PromoCode.Max := 9, Remaining := 0\<rparr>"
      demo_env demo_Client "Some demo_Ticket" 1 demo_world demo_Ticket]
  by (simp add: demo_PromoCode_def)

end
